theory Spec2Isabelle
  imports
    Complex_Main
    "HOL-Library.AList"
    "HOL-Library.List_Lexorder"
    "HOL-Library.Product_Lexorder"
begin

section \<open>Python values shared by the modules\<close>

text \<open>
  A Python \<open>str\<close> is a sequence of Unicode code points; it is modelled as the list of
  their numbers, so that \<open>length\<close> counts what Python's \<open>len\<close> counts and the
  lexicographic order on lists is Python's string order. \<open>py_str\<close> embeds an ASCII
  literal.
\<close>

type_synonym pystr = "nat list"

definition py_str :: "string \<Rightarrow> pystr" where
  "py_str s = map of_char s"

text \<open>
  The exceptions of the model. \<open>ValueError\<close>, \<open>KeyError\<close>, \<open>TypeError\<close> and
  \<open>ZeroDivisionError\<close> are the ones the source and the library calls it makes can
  raise; \<open>ServiceError\<close> is whatever the chain's \<open>invoke\<close> raises (opaque, tagged by
  a number). \<open>EmptyDatasetError\<close> and \<open>MalformedReportError\<close> are the names of the
  specification's taxonomy: no class of these names is declared in the source and no
  path of the model constructs them.
\<close>

datatype py_error =
    ValueError
  | KeyError
  | TypeError
  | ZeroDivisionError
  | ServiceError nat
  | EmptyDatasetError
  | MalformedReportError

section \<open>agent.py: the conversational agent\<close>

subsection \<open>Strings and slices\<close>

text \<open>
  \<open>str.strip()\<close> without argument removes leading and trailing whitespace, where
  whitespace is what \<open>str.isspace\<close> accepts: the code points below.
\<close>

definition py_isspace :: "nat \<Rightarrow> bool" where
  "py_isspace c \<longleftrightarrow>
     (9 \<le> c \<and> c \<le> 13) \<or> (28 \<le> c \<and> c \<le> 32) \<or> c = 133 \<or> c = 160 \<or>
     c = 5760 \<or> (8192 \<le> c \<and> c \<le> 8202) \<or> c = 8232 \<or> c = 8233 \<or>
     c = 8239 \<or> c = 8287 \<or> c = 12288"

definition strip :: "pystr \<Rightarrow> pystr" where
  "strip s = rev (dropWhile py_isspace (rev (dropWhile py_isspace s)))"

text \<open>
  The slice \<open>xs[i:]\<close>: a negative start counts from the end and is clamped at the
  beginning of the list; a start beyond the end gives the empty list.
\<close>

definition py_slice_from :: "'a list \<Rightarrow> int \<Rightarrow> 'a list" where
  "py_slice_from xs i =
     (if i < 0 then drop (nat (int (length xs) + i)) xs else drop (nat i) xs)"

subsection \<open>The agent\<close>

datatype message = HumanMessage pystr | AIMessage pystr

text \<open>The dictionary handed to \<open>chain.invoke\<close>.\<close>

record request =
  req_history :: "message list"
  req_input :: pystr

text \<open>
  The dataclass \<open>FinSightAgent\<close>. The chain is an opaque runnable: \<open>invoke\<close> either
  returns the reply or raises.
\<close>

record FinSightAgent =
  chain :: "request \<Rightarrow> py_error + pystr"
  history :: "message list"
  max_turns :: int

definition MEMORY_TURNS :: int where
  "MEMORY_TURNS = 10"

definition fallback_reply :: pystr where
  "fallback_reply = py_str ''Please ask me something about your finances!''"

text \<open>
  The window of the history that is sent:
  \<open>self.history[-max_messages:] if len(self.history) > max_messages else self.history\<close>.
\<close>

definition trimmed_history :: "FinSightAgent \<Rightarrow> message list" where
  "trimmed_history a =
     (let max_messages = max_turns a * 2
      in if int (length (history a)) > max_messages
         then py_slice_from (history a) (- max_messages)
         else history a)"

text \<open>
  \<open>ask\<close> returns what the call returns or raises, the agent afterwards, and the list of
  the requests that were sent to the chain during the call (none or one), in order.
\<close>

definition ask :: "FinSightAgent \<Rightarrow> pystr \<Rightarrow> (py_error + pystr) \<times> FinSightAgent \<times> request list" where
  "ask a question =
     (if strip question = [] then (Inr fallback_reply, a, [])
      else
        let req = \<lparr>req_history = trimmed_history a, req_input = question\<rparr>
        in case chain a req of
             Inl e \<Rightarrow> (Inl e, a, [req])
           | Inr response \<Rightarrow>
               (Inr response,
                a\<lparr>history := history a @ [HumanMessage question, AIMessage response]\<rparr>,
                [req]))"

definition clear_history :: "FinSightAgent \<Rightarrow> FinSightAgent" where
  "clear_history a = a\<lparr>history := []\<rparr>"

text \<open>
  A sequence of calls of \<open>ask\<close> on one agent: the agent after the last call, or the
  first exception.
\<close>

fun ask_all :: "FinSightAgent \<Rightarrow> pystr list \<Rightarrow> py_error + FinSightAgent" where
  "ask_all a [] = Inr a"
| "ask_all a (q # qs) =
     (case ask a q of
        (Inl e, _, _) \<Rightarrow> Inl e
      | (Inr _, a', _) \<Rightarrow> ask_all a' qs)"

section \<open>categorizer.py: the category mapping\<close>

text \<open>
  A cell of a DataFrame column is a string, a missing value (\<open>NaN\<close>), another value
  that can be hashed (a number, say), or a value that cannot be hashed (a list, a
  dictionary); the last two kinds are opaque here. A DataFrame is the list of its
  columns, label and values, in column order; it stands for a pandas DataFrame only when
  its labels are distinct, as \<open>load_data\<close> produces them. DataFrames are objects: a
  heap lists them by identity, and a reference is an index into it.
\<close>

datatype cell = Str pystr | Other nat | Unhashable nat | NaN

definition hashable :: "cell \<Rightarrow> bool" where
  "hashable c = (case c of Unhashable n \<Rightarrow> False | _ \<Rightarrow> True)"

type_synonym frame = "(pystr \<times> cell list) list"

type_synonym heap = "frame list"

definition CATEGORY_MAP :: "(pystr \<times> pystr) list" where
  "CATEGORY_MAP =
    [(py_str ''food_dining'', py_str ''Food & Groceries''),
     (py_str ''grocery_pos'', py_str ''Food & Groceries''),
     (py_str ''grocery_net'', py_str ''Food & Groceries''),
     (py_str ''shopping_pos'', py_str ''Shopping''),
     (py_str ''shopping_net'', py_str ''Shopping''),
     (py_str ''gas_transport'', py_str ''Transport & Travel''),
     (py_str ''travel'', py_str ''Transport & Travel''),
     (py_str ''entertainment'', py_str ''Entertainment''),
     (py_str ''health_fitness'', py_str ''Health & Wellness''),
     (py_str ''personal_care'', py_str ''Health & Wellness''),
     (py_str ''home'', py_str ''Home & Family''),
     (py_str ''kids_pets'', py_str ''Home & Family''),
     (py_str ''misc_pos'', py_str ''Miscellaneous''),
     (py_str ''misc_net'', py_str ''Miscellaneous'')]"

definition CATEGORY_ORDER :: "pystr list" where
  "CATEGORY_ORDER =
    [py_str ''Food & Groceries'', py_str ''Shopping'', py_str ''Transport & Travel'',
     py_str ''Entertainment'', py_str ''Health & Wellness'', py_str ''Home & Family'',
     py_str ''Miscellaneous'']"

text \<open>\<open>"category" not in df.columns\<close> raises \<open>ValueError\<close>.\<close>

definition validate_input :: "frame \<Rightarrow> py_error + unit" where
  "validate_input df =
     (if py_str ''category'' \<notin> set (map fst df) then Inl ValueError else Inr ())"

text \<open>\<open>df[label]\<close> as a read: the column, or \<open>KeyError\<close>.\<close>

definition getitem :: "frame \<Rightarrow> pystr \<Rightarrow> py_error + cell list" where
  "getitem df label = (case map_of df label of None \<Rightarrow> Inl KeyError | Some col \<Rightarrow> Inr col)"

text \<open>
  \<open>df[label] = values\<close>: an existing column is replaced where it stands, a new one is
  added after the last column.
\<close>

definition setitem :: "frame \<Rightarrow> pystr \<Rightarrow> cell list \<Rightarrow> frame" where
  "setitem df label col = AList.update label col df"

text \<open>
  \<open>Series.map(dict)\<close> looks every value of the column up in the dictionary: a value
  that is not a key becomes \<open>NaN\<close>, and a value that cannot be hashed makes the lookup,
  so the whole call, raise \<open>TypeError\<close>.
\<close>

definition lookup_cell :: "(pystr \<times> pystr) list \<Rightarrow> cell \<Rightarrow> cell" where
  "lookup_cell d v =
     (case v of
        Str s \<Rightarrow> (case map_of d s of Some t \<Rightarrow> Str t | None \<Rightarrow> NaN)
      | Other n \<Rightarrow> NaN
      | Unhashable n \<Rightarrow> NaN
      | NaN \<Rightarrow> NaN)"

definition series_map :: "(pystr \<times> pystr) list \<Rightarrow> cell list \<Rightarrow> py_error + cell list" where
  "series_map d col =
     (if list_all hashable col then Inr (map (lookup_cell d) col) else Inl TypeError)"

definition fillna :: "cell \<Rightarrow> cell list \<Rightarrow> cell list" where
  "fillna v col = map (\<lambda>x. if x = NaN then v else x) col"

text \<open>\<open>df.copy()\<close>: a new object with the same columns; the old one stays.\<close>

definition copy :: "heap \<Rightarrow> nat \<Rightarrow> heap \<times> nat" where
  "copy h r = (h @ [h ! r], length h)"

text \<open>
  \<open>categorize\<close> takes the heap and the reference of the caller's DataFrame and returns
  the heap afterwards and the reference of the result.
\<close>

definition categorize :: "heap \<Rightarrow> nat \<Rightarrow> py_error + heap \<times> nat" where
  "categorize h r =
     (case validate_input (h ! r) of
        Inl e \<Rightarrow> Inl e
      | Inr _ \<Rightarrow>
          (case copy h r of
             (h1, df) \<Rightarrow>
               (case getitem (h1 ! df) (py_str ''category'') of
                  Inl e \<Rightarrow> Inl e
                | Inr col \<Rightarrow>
                    (case series_map CATEGORY_MAP col of
                       Inl e \<Rightarrow> Inl e
                     | Inr mapped \<Rightarrow>
                         Inr (h1[df := setitem (h1 ! df) (py_str ''spending_category'')
                                        (fillna (Str (py_str ''Miscellaneous'')) mapped)],
                              df)))))"

section \<open>agent.py: the context summary\<close>

text \<open>
  The rows of the categorized DataFrame, with the columns that \<open>build_context_summary\<close>
  reads. The columns are as \<open>load_data\<close> leaves them (no missing value in \<open>datetime\<close>,
  \<open>amount\<close> and \<open>merchant\<close>; the time fields derived from \<open>datetime\<close>), with
  \<open>datetime\<close> as a number on the time line. \<open>spending_category\<close> is the column that
  \<open>categorize\<close> adds; \<open>None\<close> is a missing value there (\<open>NaN\<close>), which no output of
  \<open>categorize\<close> has but a DataFrame can.

  \<open>hour\<close> is the whole number of the hour. The column that holds it has a dtype:
  \<open>load_data\<close> derives it with \<open>dt.hour\<close> before it drops the rows without a
  timestamp, so the column is \<open>int64\<close> when every raw row has a timestamp and
  \<open>float64\<close> when one has not, also after that row is dropped. The DataFrame that
  \<open>build_context_summary\<close> takes is its rows and this dtype.

  \<open>amount\<close> is a column of 64-bit floating-point numbers. Its type is the parameter
  \<open>'a\<close>, and the floating-point operations of pandas are parameters as well
  (\<open>float_ops\<close>): what is proved for every \<open>float_ops\<close> holds of the IEEE operations,
  whatever they round to. Only the comparison of two amounts is interpreted, as a linear
  order (no \<open>NaN\<close> among the amounts).
\<close>

record 'a txn =
  amount :: 'a
  datetime :: int
  is_fraud :: int
  spending_category :: "pystr option"
  merchant :: pystr
  year :: int
  month :: int
  month_name :: pystr
  day_of_week :: pystr
  hour :: int

datatype dtype = int64 | float64

record 'a txn_frame =
  hour_dtype :: dtype
  rows :: "'a txn list"

text \<open>
  \<open>series_sum\<close> is \<open>Series.sum()\<close>, \<open>series_mean\<close> is \<open>Series.mean()\<close>, \<open>group_sum\<close>
  is the sum of one group of \<open>groupby(...).sum()\<close>, \<open>true_div\<close> is Python's \<open>/\<close> on two
  integers with a divisor that is not zero, \<open>percent\<close> is \<open>100 * total / total_spend\<close>
  on two floating-point numbers (a division by zero gives \<open>inf\<close> or \<open>nan\<close> there, no
  exception), and \<open>argsort_desc\<close> gives the positions of the values in the order in
  which \<open>sort_values(ascending=False)\<close> puts them (the default sorting algorithm is not
  stable, so the order among equal values is the library's).
\<close>

record 'a float_ops =
  series_sum :: "'a list \<Rightarrow> 'a"
  series_mean :: "'a list \<Rightarrow> 'a"
  group_sum :: "'a list \<Rightarrow> 'a"
  true_div :: "int \<Rightarrow> int \<Rightarrow> 'a"
  percent :: "'a \<Rightarrow> 'a \<Rightarrow> 'a"
  argsort_desc :: "'a list \<Rightarrow> nat list"

text \<open>
  The summary string, as the values that the f-string of \<open>build_context_summary\<close>
  substitutes, under the names of the local variables. \<open>cat_lines\<close>, \<open>merch_lines\<close>
  and \<open>monthly_lines\<close> hold the values of one line of the string each: category, total,
  percentage of the total spend and count; rank, merchant and spend; month label and
  amount. The fixed text between the values and the digits that a format code prints for
  a number are not modelled; whether a format code accepts its value is (\<open>format_02d\<close>
  below).
\<close>

record 'a context_summary =
  total_spend :: 'a
  total_txns :: int
  date_min :: int
  date_max :: int
  avg_txn :: 'a
  max_txn :: "'a option"
  fraud_count :: int
  fraud_pct :: 'a
  cat_lines :: "(pystr \<times> 'a \<times> 'a \<times> nat) list"
  merch_lines :: "(nat \<times> pystr \<times> 'a) list"
  monthly_lines :: "(pystr \<times> 'a) list"
  peak_day :: pystr
  peak_hour :: int

text \<open>
  \<open>Series.min()\<close> and \<open>Series.max()\<close>: \<open>None\<close> is the missing value (\<open>NaT\<close>, \<open>NaN\<close>)
  that they give on an empty column.
\<close>

definition series_min :: "'b::linorder list \<Rightarrow> 'b option" where
  "series_min xs = (case xs of [] \<Rightarrow> None | x # ys \<Rightarrow> Some (fold min ys x))"

definition series_max :: "'b::linorder list \<Rightarrow> 'b option" where
  "series_max xs = (case xs of [] \<Rightarrow> None | x # ys \<Rightarrow> Some (fold max ys x))"

text \<open>\<open>Timestamp.strftime\<close>; on \<open>NaT\<close> it raises \<open>ValueError\<close>.\<close>

definition strftime :: "int option \<Rightarrow> py_error + int" where
  "strftime t = (case t of None \<Rightarrow> Inl ValueError | Some d \<Rightarrow> Inr d)"

definition py_true_div :: "'a float_ops \<Rightarrow> int \<Rightarrow> int \<Rightarrow> py_error + 'a" where
  "py_true_div ops a b = (if b = 0 then Inl ZeroDivisionError else Inr (true_div ops a b))"

text \<open>
  \<open>df.groupby(key)\<close>: the rows with a missing key are dropped, the groups come in
  ascending order of their keys, and the rows of a group keep the order of the DataFrame.
\<close>

definition groupby :: "('r \<Rightarrow> 'k::linorder option) \<Rightarrow> 'r list \<Rightarrow> ('k \<times> 'r list) list" where
  "groupby key df =
     map (\<lambda>k. (k, filter (\<lambda>r. key r = Some k) df)) (sort (remdups (List.map_filter key df)))"

definition groupby_sum ::
  "'a float_ops \<Rightarrow> ('a txn \<Rightarrow> 'k::linorder option) \<Rightarrow> 'a txn list \<Rightarrow> ('k \<times> 'a) list" where
  "groupby_sum ops key df =
     map (\<lambda>(k, g). (k, group_sum ops (map amount g))) (groupby key df)"

definition groupby_agg ::
  "'a float_ops \<Rightarrow> ('a txn \<Rightarrow> 'k::linorder option) \<Rightarrow> 'a txn list \<Rightarrow> ('k \<times> 'a \<times> nat) list" where
  "groupby_agg ops key df =
     map (\<lambda>(k, g). (k, group_sum ops (map amount g), length g)) (groupby key df)"

text \<open>\<open>sort_values(column, ascending=False)\<close>: the rows at the positions of the order.\<close>

definition sort_values_desc :: "'a float_ops \<Rightarrow> ('r \<Rightarrow> 'a) \<Rightarrow> 'r list \<Rightarrow> 'r list" where
  "sort_values_desc ops col tbl = map (\<lambda>i. tbl ! i) (argsort_desc ops (map col tbl))"

definition tail :: "nat \<Rightarrow> 'r list \<Rightarrow> 'r list" where
  "tail n tbl = drop (length tbl - n) tbl"

text \<open>\<open>Series.idxmax()\<close>: the label of the first row that has the maximum; \<open>ValueError\<close> on an empty column.\<close>

fun argmax_first :: "'k \<times> 'a::linorder \<Rightarrow> ('k \<times> 'a) list \<Rightarrow> 'k \<times> 'a" where
  "argmax_first best [] = best"
| "argmax_first best (x # xs) = argmax_first (if snd best < snd x then x else best) xs"

definition idxmax :: "('k \<times> 'a::linorder) list \<Rightarrow> py_error + 'k" where
  "idxmax tbl = (case tbl of [] \<Rightarrow> Inl ValueError | x # xs \<Rightarrow> Inr (fst (argmax_first x xs)))"

text \<open>
  The format code \<open>02d\<close> of \<open>{peak_hour:02d}\<close> accepts an integer and raises
  \<open>ValueError\<close> on a float. The label that \<open>idxmax\<close> returns is a value of the hour
  column, so it has the dtype of that column. The other format codes of the f-string
  (\<open>,.2f\<close>, \<open>.2f\<close> and \<open>.1f\<close> on floats, \<open>,\<close> on integers, a width on strings and
  integers) accept the values they are given.
\<close>

definition format_02d :: "dtype \<Rightarrow> int \<Rightarrow> py_error + int" where
  "format_02d t v = (case t of int64 \<Rightarrow> Inr v | float64 \<Rightarrow> Inl ValueError)"

text \<open>The three tables, under the names of the local variables that hold them.\<close>

definition cat_summary :: "'a float_ops \<Rightarrow> 'a txn list \<Rightarrow> (pystr \<times> 'a \<times> nat) list" where
  "cat_summary ops df =
     sort_values_desc ops (\<lambda>row. fst (snd row)) (groupby_agg ops spending_category df)"

definition top_merchants :: "'a float_ops \<Rightarrow> 'a txn list \<Rightarrow> (pystr \<times> 'a) list" where
  "top_merchants ops df =
     take 10 (sort_values_desc ops snd (groupby_sum ops (\<lambda>r. Some (merchant r)) df))"

definition monthly ::
  "'a float_ops \<Rightarrow> 'a txn list \<Rightarrow> ((int \<times> int \<times> pystr) \<times> 'a) list" where
  "monthly ops df =
     tail 6 (sort_key (\<lambda>row. (fst (fst row), fst (snd (fst row))))
               (groupby_sum ops (\<lambda>r. Some (year r, month r, month_name r)) df))"

text \<open>
  The steps that can raise are taken in the order of the source: the two \<open>strftime\<close>
  calls, the division for \<open>fraud_pct\<close>, the two \<open>idxmax\<close> calls, and in the f-string
  the format of \<open>peak_hour\<close>, which is its last field.
\<close>

definition build_context_summary ::
  "'a::linorder float_ops \<Rightarrow> 'a txn_frame \<Rightarrow> py_error + 'a context_summary" where
  "build_context_summary ops df =
     (case strftime (series_min (map datetime (rows df))) of
        Inl e \<Rightarrow> Inl e
      | Inr dmin \<Rightarrow>
     (case strftime (series_max (map datetime (rows df))) of
        Inl e \<Rightarrow> Inl e
      | Inr dmax \<Rightarrow>
     (case py_true_div ops (100 * sum_list (map is_fraud (rows df))) (int (length (rows df))) of
        Inl e \<Rightarrow> Inl e
      | Inr pct \<Rightarrow>
     (case idxmax (groupby_sum ops (\<lambda>r. Some (day_of_week r)) (rows df)) of
        Inl e \<Rightarrow> Inl e
      | Inr pday \<Rightarrow>
     (case idxmax (groupby_sum ops (\<lambda>r. Some (hour r)) (rows df)) of
        Inl e \<Rightarrow> Inl e
      | Inr phour \<Rightarrow>
     (case format_02d (hour_dtype df) phour of
        Inl e \<Rightarrow> Inl e
      | Inr phour_02d \<Rightarrow>
        Inr \<lparr>total_spend = series_sum ops (map amount (rows df)),
             total_txns = int (length (rows df)),
             date_min = dmin,
             date_max = dmax,
             avg_txn = series_mean ops (map amount (rows df)),
             max_txn = series_max (map amount (rows df)),
             fraud_count = sum_list (map is_fraud (rows df)),
             fraud_pct = pct,
             cat_lines =
               map (\<lambda>row. (fst row, fst (snd row),
                            percent ops (fst (snd row)) (series_sum ops (map amount (rows df))),
                            snd (snd row)))
                 (cat_summary ops (rows df)),
             merch_lines =
               map (\<lambda>p. (fst p + 1, fst (snd p), snd (snd p)))
                 (enumerate 0 (top_merchants ops (rows df))),
             monthly_lines =
               map (\<lambda>row. (snd (snd (fst row)), snd row)) (monthly ops (rows df)),
             peak_day = pday,
             peak_hour = phour_02d\<rparr>))))))"

text \<open>The total that \<open>groupby(key).sum()\<close> gives for the key \<open>k\<close>.\<close>

definition group_total ::
  "'a float_ops \<Rightarrow> ('a txn \<Rightarrow> 'k option) \<Rightarrow> 'a txn list \<Rightarrow> 'k \<Rightarrow> 'a" where
  "group_total ops key df k = group_sum ops (map amount (filter (\<lambda>r. key r = Some k) df))"

text \<open>
  One instance of the operations, for evaluating the summary on small inputs: exact
  arithmetic on rational numbers and a stable descending order. On the inputs used below
  (amounts that are small whole numbers, sums, means and percentages that are whole
  numbers too, at most one row in each sorted table) the IEEE operations give the same
  values.
\<close>

definition argsort_stable_desc :: "'a::linorder list \<Rightarrow> nat list" where
  "argsort_stable_desc xs = rev (map snd (sort_key fst (rev (zip xs [0..<length xs]))))"

definition exact_ops :: "rat float_ops" where
  "exact_ops = \<lparr>series_sum = sum_list,
                series_mean = (\<lambda>xs. sum_list xs / of_nat (length xs)),
                group_sum = sum_list,
                true_div = (\<lambda>a b. of_int a / of_int b),
                percent = (\<lambda>total total_spend. 100 * total / total_spend),
                argsort_desc = argsort_stable_desc\<rparr>"

section \<open>Properties of the agent\<close>

lemma strip_empty_iff: "strip s = [] \<longleftrightarrow> (\<forall>c \<in> set s. py_isspace c)"
proof
  assume "strip s = []"
  then have all: "\<forall>c \<in> set (dropWhile py_isspace s). py_isspace c"
    by (simp add: strip_def)
  have "dropWhile py_isspace s = []"
  proof (rule ccontr)
    assume ne: "dropWhile py_isspace s \<noteq> []"
    then have "\<not> py_isspace (hd (dropWhile py_isspace s))"
      by (rule hd_dropWhile)
    moreover have "hd (dropWhile py_isspace s) \<in> set (dropWhile py_isspace s)"
      using ne by simp
    ultimately show False using all by blast
  qed
  then show "\<forall>c \<in> set s. py_isspace c"
    by simp
next
  assume "\<forall>c \<in> set s. py_isspace c"
  then have d: "dropWhile py_isspace s = []"
    by simp
  show "strip s = []"
    unfolding strip_def d by simp
qed

text \<open>
  C1: whatever the question and the history, a call whose chain invocation raises
  leaves the agent (so its history) exactly as it was and propagates the exception;
  a call whose chain invocation returns appends exactly the pair
  \<open>HumanMessage question, AIMessage response\<close> at the end of the history, built from
  the response that was obtained.
\<close>

theorem ask_history_atomic:
  "(\<forall>e. fst (ask a q) = Inl e \<longrightarrow> fst (snd (ask a q)) = a) \<and>
   (\<forall>e. chain a \<lparr>req_history = trimmed_history a, req_input = q\<rparr> = Inl e \<longrightarrow>
        history (fst (snd (ask a q))) = history a) \<and>
   (\<forall>r. strip q \<noteq> [] \<and>
        chain a \<lparr>req_history = trimmed_history a, req_input = q\<rparr> = Inr r \<longrightarrow>
        fst (ask a q) = Inr r \<and>
        history (fst (snd (ask a q))) = history a @ [HumanMessage q, AIMessage r])"
  by (auto simp: ask_def Let_def split: sum.splits)

theorem ask_history_atomic_witness:
  "fst (ask \<lparr>chain = (\<lambda>r. Inl (ServiceError 7)),
              history = [HumanMessage [104], AIMessage [105]],
              max_turns = 10\<rparr> [113]) = Inl (ServiceError 7) \<and>
   history (fst (snd (ask \<lparr>chain = (\<lambda>r. Inl (ServiceError 7)),
              history = [HumanMessage [104], AIMessage [105]],
              max_turns = 10\<rparr> [113]))) = [HumanMessage [104], AIMessage [105]] \<and>
   strip [113] \<noteq> [] \<and>
   history (fst (snd (ask \<lparr>chain = (\<lambda>r. Inr (req_input r @ [33])),
              history = [HumanMessage [104], AIMessage [105]],
              max_turns = 10\<rparr> [113]))) =
     [HumanMessage [104], AIMessage [105], HumanMessage [113], AIMessage [113, 33]]"
  using
    ask_history_atomic [of "\<lparr>chain = (\<lambda>r. Inl (ServiceError 7)),
              history = [HumanMessage [104], AIMessage [105]], max_turns = 10\<rparr>" "[113]"]
    ask_history_atomic [of "\<lparr>chain = (\<lambda>r. Inr (req_input r @ [33])),
              history = [HumanMessage [104], AIMessage [105]], max_turns = 10\<rparr>" "[113]"]
  by (simp add: ask_def strip_def py_isspace_def)

text \<open>
  C2: a question that is empty or made of whitespace only returns the fixed fallback
  string, sends no request to the chain, and leaves the agent, so the whole history,
  as it was.
\<close>

theorem ask_blank_question:
  "\<forall>c \<in> set q. py_isspace c \<Longrightarrow> ask a q = (Inr fallback_reply, a, [])"
  by (simp add: ask_def strip_empty_iff)

theorem ask_blank_question_witness:
  "py_isspace 32 \<and> py_isspace 9 \<and>
   ask \<lparr>chain = (\<lambda>r. Inr (req_input r)), history = [HumanMessage [104], AIMessage [105]],
        max_turns = 10\<rparr> [32, 9, 32] =
     (Inr fallback_reply,
      \<lparr>chain = (\<lambda>r. Inr (req_input r)), history = [HumanMessage [104], AIMessage [105]],
        max_turns = 10\<rparr>, []) \<and>
   ask \<lparr>chain = (\<lambda>r. Inr (req_input r)), history = [], max_turns = 10\<rparr> [] =
     (Inr fallback_reply,
      \<lparr>chain = (\<lambda>r. Inr (req_input r)), history = [], max_turns = 10\<rparr>, [])"
proof -
  have h: "\<forall>c \<in> set [32, 9, 32]. py_isspace c"
    by (simp add: py_isspace_def)
  have e: "\<forall>c \<in> set ([] :: pystr). py_isspace c"
    by simp
  show ?thesis
    using h ask_blank_question [OF h] ask_blank_question [OF e] by simp
qed

subsection \<open>The window\<close>

lemma trimmed_history_is_suffix: "\<exists>k. trimmed_history a = drop k (history a)"
proof (cases "int (length (history a)) > max_turns a * 2")
  case True
  then show ?thesis
    by (auto simp: trimmed_history_def py_slice_from_def Let_def)
next
  case False
  then have "trimmed_history a = drop 0 (history a)"
    by (simp add: trimmed_history_def)
  then show ?thesis by blast
qed

lemma trimmed_history_length:
  assumes "0 < max_turns a"
  shows "int (length (trimmed_history a)) \<le> 2 * max_turns a"
  using assms by (auto simp: trimmed_history_def py_slice_from_def Let_def)

lemma trimmed_history_recent:
  assumes "0 < max_turns a"
  shows "trimmed_history a =
           drop (length (history a) - nat (2 * max_turns a)) (history a)"
  using assms
  by (auto simp: trimmed_history_def py_slice_from_def Let_def nat_diff_distrib nat_add_distrib
      intro!: arg_cong2 [where f = drop])

lemma ask_keeps_stored_history:
  "\<exists>ms. history (fst (snd (ask a q))) = history a @ ms"
  by (auto simp: ask_def Let_def split: sum.splits)

lemma ask_all_history_length:
  assumes "ask_all a qs = Inr a'" and "\<forall>q \<in> set qs. strip q \<noteq> []"
  shows "length (history a') = length (history a) + 2 * length qs"
  using assms
proof (induction qs arbitrary: a)
  case Nil
  then show ?case by simp
next
  case (Cons q qs)
  then obtain r where r: "chain a \<lparr>req_history = trimmed_history a, req_input = q\<rparr> = Inr r"
    by (cases "chain a \<lparr>req_history = trimmed_history a, req_input = q\<rparr>")
       (auto simp: ask_def Let_def)
  let ?a1 = "a\<lparr>history := history a @ [HumanMessage q, AIMessage r]\<rparr>"
  from Cons.prems r have "ask_all ?a1 qs = Inr a'"
    by (simp add: ask_def Let_def)
  with Cons.IH [of ?a1] Cons.prems(2) show ?case by simp
qed

text \<open>
  C3: the request of a call carries at most \<open>max_turns\<close> prior turns. With
  \<open>max_turns = 0\<close> the slice \<open>self.history[-0:]\<close> is the whole list: after one successful
  call, the second call sends the one stored turn (two messages) although the window is
  zero turns. The stored history keeps both turns.
\<close>

theorem ask_window_max_turns_zero:
  "ask_all \<lparr>chain = (\<lambda>r. Inr (req_input r @ [33])), history = [], max_turns = 0\<rparr> [[104]] =
     Inr \<lparr>chain = (\<lambda>r. Inr (req_input r @ [33])),
          history = [HumanMessage [104], AIMessage [104, 33]], max_turns = 0\<rparr> \<and>
   snd (snd (ask \<lparr>chain = (\<lambda>r. Inr (req_input r @ [33])),
                   history = [HumanMessage [104], AIMessage [104, 33]], max_turns = 0\<rparr> [113])) =
     [\<lparr>req_history = [HumanMessage [104], AIMessage [104, 33]], req_input = [113]\<rparr>] \<and>
   \<not> int (length (trimmed_history
          \<lparr>chain = (\<lambda>r. Inr (req_input r @ [33])),
           history = [HumanMessage [104], AIMessage [104, 33]], max_turns = 0\<rparr>)) \<le> 2 * 0"
  by (simp add: ask_def strip_def py_isspace_def trimmed_history_def py_slice_from_def)

section \<open>Properties of the category mapping\<close>

lemma getitem_present:
  assumes "label \<in> set (map fst df)"
  shows "\<exists>col. map_of df label = Some col \<and> getitem df label = Inr col"
proof -
  from assms have "map_of df label \<noteq> None"
    by (simp add: map_of_eq_None_iff)
  then show ?thesis
    by (auto simp: getitem_def)
qed

lemma categorize_validated:
  assumes "map_of (h ! r) (py_str ''category'') = Some col"
  shows "validate_input (h ! r) = Inr () \<and> getitem (h ! r) (py_str ''category'') = Inr col"
proof -
  from assms have "py_str ''category'' \<in> set (map fst (h ! r))"
    by (metis map_of_eq_None_iff option.distinct(1) set_map)
  then have "validate_input (h ! r) = Inr ()"
    by (simp add: validate_input_def)
  moreover have "getitem (h ! r) (py_str ''category'') = Inr col"
    using assms by (simp add: getitem_def)
  ultimately show ?thesis by simp
qed

lemma categorize_result:
  assumes "r < length h" and "map_of (h ! r) (py_str ''category'') = Some col"
    and "\<forall>c \<in> set col. hashable c"
  shows "categorize h r =
           Inr (h @ [setitem (h ! r) (py_str ''spending_category'')
                       (fillna (Str (py_str ''Miscellaneous''))
                          (map (lookup_cell CATEGORY_MAP) col))],
                length h)"
proof -
  have m: "series_map CATEGORY_MAP col = Inr (map (lookup_cell CATEGORY_MAP) col)"
    using assms(3) by (simp add: series_map_def list_all_iff)
  show ?thesis
    using assms(1) categorize_validated [OF assms(2)] m
    by (simp add: categorize_def copy_def nth_append)
qed

lemma categorize_unhashable:
  assumes "r < length h" and "map_of (h ! r) (py_str ''category'') = Some col"
    and "\<exists>c \<in> set col. \<not> hashable c"
  shows "categorize h r = Inl TypeError"
proof -
  have m: "series_map CATEGORY_MAP col = Inl TypeError"
    using assms(3) by (simp add: series_map_def list_all_iff)
  show ?thesis
    using assms(1) categorize_validated [OF assms(2)] m
    by (simp add: categorize_def copy_def nth_append)
qed

lemma map_of_setitem_same: "map_of (setitem df label col) label = Some col"
  by (simp add: setitem_def update_conv')

lemma fillna_lookup_cell:
  "hashable c \<Longrightarrow>
   (if lookup_cell CATEGORY_MAP c = NaN then Str (py_str ''Miscellaneous'')
    else lookup_cell CATEGORY_MAP c) =
   Str (case c of
          Str s \<Rightarrow> (case map_of CATEGORY_MAP s of
                      Some t \<Rightarrow> t
                    | None \<Rightarrow> py_str ''Miscellaneous'')
        | Other n \<Rightarrow> py_str ''Miscellaneous''
        | Unhashable n \<Rightarrow> py_str ''Miscellaneous''
        | NaN \<Rightarrow> py_str ''Miscellaneous'')"
  by (cases c) (auto simp: lookup_cell_def split: option.splits)

text \<open>
  C6, on the code: on a DataFrame with distinct column labels and a \<open>category\<close> column
  whose cells can all be hashed (strings, numbers, missing values), \<open>categorize\<close>
  returns (it does not raise); in the \<open>spending_category\<close> column of the result, at every
  row, a raw category string that is a key of \<open>CATEGORY_MAP\<close> has become its table
  entry, and every other raw value, a string that is not a key among them, has become
  \<open>Miscellaneous\<close>.
\<close>

theorem categorize_maps_every_category:
  assumes "r < length h"
    and "distinct (map fst (h ! r))"
    and "map_of (h ! r) (py_str ''category'') = Some raw"
    and "\<forall>c \<in> set raw. hashable c"
  shows "\<exists>h' r' out.
           categorize h r = Inr (h', r') \<and>
           map_of (h' ! r') (py_str ''spending_category'') = Some out \<and>
           length out = length raw \<and>
           (\<forall>i. i < length raw \<longrightarrow>
              out ! i =
                Str (case raw ! i of
                       Str s \<Rightarrow> (case map_of CATEGORY_MAP s of
                                   Some t \<Rightarrow> t
                                 | None \<Rightarrow> py_str ''Miscellaneous'')
                     | Other n \<Rightarrow> py_str ''Miscellaneous''
                     | Unhashable n \<Rightarrow> py_str ''Miscellaneous''
                     | NaN \<Rightarrow> py_str ''Miscellaneous''))"
proof -
  let ?out = "fillna (Str (py_str ''Miscellaneous'')) (map (lookup_cell CATEGORY_MAP) raw)"
  let ?h' = "h @ [setitem (h ! r) (py_str ''spending_category'') ?out]"
  have c: "categorize h r = Inr (?h', length h)"
    using categorize_result [OF assms(1,3,4)] .
  have o: "map_of (?h' ! length h) (py_str ''spending_category'') = Some ?out"
    by (simp add: map_of_setitem_same)
  have l: "length ?out = length raw"
    by (simp add: fillna_def)
  have m: "?out ! i =
             Str (case raw ! i of
                    Str s \<Rightarrow> (case map_of CATEGORY_MAP s of
                                Some t \<Rightarrow> t
                              | None \<Rightarrow> py_str ''Miscellaneous'')
                  | Other n \<Rightarrow> py_str ''Miscellaneous''
                  | Unhashable n \<Rightarrow> py_str ''Miscellaneous''
                  | NaN \<Rightarrow> py_str ''Miscellaneous'')"
    if "i < length raw" for i
  proof -
    from that assms(4) have "hashable (raw ! i)"
      by simp
    from fillna_lookup_cell [OF this] that show ?thesis
      by (simp add: fillna_def)
  qed
  from c o l m show ?thesis by blast
qed

theorem categorize_maps_every_category_witness:
  "categorize
     [[(py_str ''category'', [Str (py_str ''grocery_pos''), Str (py_str ''unknown_x''), NaN]),
       (py_str ''amount'', [Other 100, Other 50, Other 7])]] 0 =
   Inr ([[(py_str ''category'', [Str (py_str ''grocery_pos''), Str (py_str ''unknown_x''), NaN]),
       (py_str ''amount'', [Other 100, Other 50, Other 7])],
         [(py_str ''category'', [Str (py_str ''grocery_pos''), Str (py_str ''unknown_x''), NaN]),
          (py_str ''amount'', [Other 100, Other 50, Other 7]),
          (py_str ''spending_category'',
             [Str (py_str ''Food & Groceries''), Str (py_str ''Miscellaneous''),
              Str (py_str ''Miscellaneous'')])]], 1)"
proof -
  have r: "0 < length [[(py_str ''category'', [Str (py_str ''grocery_pos''), Str (py_str ''unknown_x''), NaN]),
       (py_str ''amount'', [Other 100, Other 50, Other 7])]]"
    by simp
  have d: "distinct (map fst ([[(py_str ''category'', [Str (py_str ''grocery_pos''), Str (py_str ''unknown_x''), NaN]),
       (py_str ''amount'', [Other 100, Other 50, Other 7])]] ! 0))"
    by (simp add: py_str_def)
  have c: "map_of ([[(py_str ''category'', [Str (py_str ''grocery_pos''), Str (py_str ''unknown_x''), NaN]),
       (py_str ''amount'', [Other 100, Other 50, Other 7])]] ! 0) (py_str ''category'') =
             Some [Str (py_str ''grocery_pos''), Str (py_str ''unknown_x''), NaN]"
    by simp
  have k: "\<forall>c \<in> set [Str (py_str ''grocery_pos''), Str (py_str ''unknown_x''), NaN]. hashable c"
    by (simp add: hashable_def)
  show ?thesis
    using categorize_maps_every_category [OF r d c k]
    by (simp add: categorize_def validate_input_def copy_def getitem_def setitem_def fillna_def
        series_map_def lookup_cell_def hashable_def CATEGORY_MAP_def py_str_def)
qed

text \<open>
  C6 as stated fails on a \<open>category\<close> column with a cell that cannot be hashed:
  \<open>categorize\<close> raises \<open>TypeError\<close>.
\<close>

theorem categorize_unhashable_cell_counterexample:
  "categorize
     [[(py_str ''category'', [Str (py_str ''grocery_pos''), Unhashable 0])]] 0 =
   Inl TypeError"
  by (simp add: categorize_def validate_input_def copy_def getitem_def setitem_def fillna_def
        series_map_def lookup_cell_def hashable_def CATEGORY_MAP_def py_str_def)

subsection \<open>The caller's DataFrame\<close>


lemma update_labels_present:
  "label \<in> set (map fst df) \<Longrightarrow> map fst (AList.update label col df) = map fst df"
  by (induction df) auto

lemma categorize_keeps_heap:
  assumes "categorize h r = Inr (h', r')" and "r < length h"
  shows "take (length h) h' = h \<and> r' = length h"
  using assms
  by (auto simp: categorize_def copy_def split: sum.splits)




section \<open>Properties of the context summary\<close>

subsection \<open>The first maximum of a grouped sum\<close>

lemma argmax_first_mem: "argmax_first b xs \<in> set (b # xs)"
  by (induction xs arbitrary: b) auto

lemma argmax_first_ge_best: "snd b \<le> snd (argmax_first b xs)"
proof (induction xs arbitrary: b)
  case Nil
  then show ?case by simp
next
  case (Cons x xs)
  have "snd b \<le> snd (if snd b < snd x then x else b)"
    by (simp add: less_imp_le)
  also have "\<dots> \<le> snd (argmax_first (if snd b < snd x then x else b) xs)"
    by (rule Cons.IH)
  finally show ?case by simp
qed

lemma argmax_first_max: "p \<in> set (b # xs) \<Longrightarrow> snd p \<le> snd (argmax_first b xs)"
proof (induction xs arbitrary: b)
  case Nil
  then show ?case by simp
next
  case (Cons x xs)
  let ?b = "if snd b < snd x then x else b"
  have m: "argmax_first b (x # xs) = argmax_first ?b xs" by simp
  have bb: "snd b \<le> snd ?b"
    by (simp add: less_imp_le)
  have xb: "snd x \<le> snd ?b"
    by (simp add: not_less)
  have ge: "snd ?b \<le> snd (argmax_first ?b xs)"
    by (rule argmax_first_ge_best)
  from Cons.prems consider "p = b" | "p = x" | "p \<in> set xs" by auto
  then show ?case
  proof cases
    case 1
    from order_trans [OF bb ge] show ?thesis unfolding m 1 .
  next
    case 2
    from order_trans [OF xb ge] show ?thesis unfolding m 2 .
  next
    case 3
    then have "p \<in> set (?b # xs)" by simp
    from Cons.IH [OF this] show ?thesis unfolding m .
  qed
qed

lemma argmax_first_least:
  "sorted (map fst (b # xs)) \<Longrightarrow> p \<in> set (b # xs) \<Longrightarrow> snd p = snd (argmax_first b xs)
     \<Longrightarrow> fst (argmax_first b xs) \<le> fst p"
proof (induction xs arbitrary: b p)
  case Nil
  then show ?case by simp
next
  case (Cons x xs)
  let ?b = "if snd b < snd x then x else b"
  let ?m = "argmax_first ?b xs"
  have m: "argmax_first b (x # xs) = ?m" by simp
  have srt: "sorted (map fst (?b # xs))"
    using Cons.prems(1) by auto
  have ge: "snd ?b \<le> snd ?m" by (rule argmax_first_ge_best)
  have IH: "fst ?m \<le> fst q" if "q \<in> set (?b # xs)" and "snd q = snd ?m" for q
    using Cons.IH [OF srt that] .
  have pm: "snd p = snd ?m"
    using Cons.prems(3) unfolding m .
  from Cons.prems(2) consider "p = b" | "p = x" | "p \<in> set xs" by auto
  then have "fst ?m \<le> fst p"
  proof cases
    case 1
    show ?thesis
    proof (cases "snd b < snd x")
      case True
      with ge have "snd b < snd ?m" by simp
      with pm 1 show ?thesis by simp
    next
      case False
      then have "b \<in> set (?b # xs)" by simp
      from IH [OF this] pm 1 show ?thesis by simp
    qed
  next
    case 2
    show ?thesis
    proof (cases "snd b < snd x")
      case True
      then have "x \<in> set (?b # xs)" by simp
      from IH [OF this] pm 2 show ?thesis by simp
    next
      case False
      then have bm: "snd b \<le> snd ?m" using ge by simp
      from False have "snd x \<le> snd b" by simp
      with bm pm 2 have eq: "snd b = snd ?m" by simp
      from False have "b \<in> set (?b # xs)" by simp
      from IH [OF this eq] have "fst ?m \<le> fst b" .
      moreover have "fst b \<le> fst x" using Cons.prems(1) by simp
      ultimately show ?thesis using 2 by simp
    qed
  next
    case 3
    then have "p \<in> set (?b # xs)" by simp
    from IH [OF this pm] show ?thesis .
  qed
  then show ?case unfolding m .
qed

lemma groupby_sum_table:
  "groupby_sum ops key df =
     map (\<lambda>k. (k, group_total ops key df k)) (sort (remdups (List.map_filter key df)))"
  by (simp add: groupby_sum_def groupby_def group_total_def comp_def)

lemma set_map_filter: "set (List.map_filter f xs) = {y. \<exists>x \<in> set xs. f x = Some y}"
  by (induction xs) (auto simp: map_filter_simps split: option.splits)

lemma group_keys_set:
  "set (sort (remdups (List.map_filter key df))) = {k. \<exists>r \<in> set df. key r = Some k}"
  by (simp add: set_map_filter)

lemma idxmax_groupby_sum:
  assumes "idxmax (groupby_sum ops key df) = Inr k"
  shows "(\<exists>r \<in> set df. key r = Some k) \<and>
         (\<forall>k'. (\<exists>r \<in> set df. key r = Some k') \<longrightarrow>
            group_total ops key df k' \<le> group_total ops key df k \<and>
            (group_total ops key df k' = group_total ops key df k \<longrightarrow> k \<le> k'))"
proof -
  define keys where "keys = sort (remdups (List.map_filter key df))"
  define tot where "tot = group_total ops key df"
  have tbl_eq: "groupby_sum ops key df = map (\<lambda>k. (k, tot k)) keys"
    by (simp add: groupby_sum_table keys_def tot_def)
  from assms obtain x xs where tbl: "x # xs = map (\<lambda>k. (k, tot k)) keys"
    and k: "k = fst (argmax_first x xs)"
    by (auto simp: idxmax_def tbl_eq split: list.splits)
  define m where "m = argmax_first x xs"
  have srt: "sorted (map fst (x # xs))"
    unfolding tbl by (simp add: comp_def keys_def)
  have entry: "snd p = tot (fst p) \<and> fst p \<in> set keys" if "p \<in> set (x # xs)" for p
    using that unfolding tbl by auto
  have row: "(k', tot k') \<in> set (x # xs)" if "k' \<in> set keys" for k'
    using that unfolding tbl by auto
  have mem: "m \<in> set (x # xs)"
    unfolding m_def by (rule argmax_first_mem)
  have km: "k = fst m"
    by (simp add: k m_def)
  have sm: "snd m = tot k"
    using entry [OF mem] km by simp
  have "k \<in> set keys"
    using entry [OF mem] km by simp
  then have 1: "\<exists>r \<in> set df. key r = Some k"
    unfolding keys_def group_keys_set by simp
  have 2: "tot k' \<le> tot k \<and> (tot k' = tot k \<longrightarrow> k \<le> k')"
    if "\<exists>r \<in> set df. key r = Some k'" for k'
  proof -
    from that have "k' \<in> set keys"
      unfolding keys_def group_keys_set by simp
    then have p: "(k', tot k') \<in> set (x # xs)"
      by (rule row)
    have a: "tot k' \<le> tot k"
      using argmax_first_max [OF p] sm by (simp add: m_def)
    have b: "k \<le> k'" if eq: "tot k' = tot k"
    proof -
      have "snd (k', tot k') = snd (argmax_first x xs)"
        using eq sm by (simp add: m_def)
      from argmax_first_least [OF srt p this] show ?thesis
        by (simp add: km m_def)
    qed
    from a b show ?thesis by blast
  qed
  from 1 2 show ?thesis
    unfolding tot_def by blast
qed

lemma idxmax_groupby_sum_total:
  assumes "df \<noteq> []"
  shows "\<exists>k. idxmax (groupby_sum ops (\<lambda>r. Some (f r)) df) = Inr k"
proof -
  from assms obtain r where "r \<in> set df" by (cases df) auto
  then have "f r \<in> set (sort (remdups (List.map_filter (\<lambda>r. Some (f r)) df)))"
    unfolding group_keys_set by blast
  then have "sort (remdups (List.map_filter (\<lambda>r. Some (f r)) df)) \<noteq> []"
    by (metis empty_iff empty_set)
  then show ?thesis
    by (auto simp: idxmax_def groupby_sum_table split: list.splits)
qed

lemma build_context_summary_empty:
  "rows df = [] \<Longrightarrow> build_context_summary ops df = Inl ValueError"
  by (simp add: build_context_summary_def strftime_def series_min_def)

lemma build_context_summary_steps:
  assumes "rows df \<noteq> []"
  shows "\<exists>dmin dmax pct pday phour.
           strftime (series_min (map datetime (rows df))) = Inr dmin \<and>
           strftime (series_max (map datetime (rows df))) = Inr dmax \<and>
           py_true_div ops (100 * sum_list (map is_fraud (rows df))) (int (length (rows df)))
             = Inr pct \<and>
           idxmax (groupby_sum ops (\<lambda>r. Some (day_of_week r)) (rows df)) = Inr pday \<and>
           idxmax (groupby_sum ops (\<lambda>r. Some (hour r)) (rows df)) = Inr phour"
proof -
  from assms obtain r rs where df: "rows df = r # rs" by (cases "rows df") auto
  have 1: "\<exists>d. strftime (series_min (map datetime (rows df))) = Inr d"
    by (simp add: df strftime_def series_min_def)
  have 2: "\<exists>d. strftime (series_max (map datetime (rows df))) = Inr d"
    by (simp add: df strftime_def series_max_def)
  have 3: "\<exists>p. py_true_div ops (100 * sum_list (map is_fraud (rows df)))
                  (int (length (rows df))) = Inr p"
    by (simp add: df py_true_div_def)
  from idxmax_groupby_sum_total [OF assms, of ops day_of_week]
  have 4: "\<exists>k. idxmax (groupby_sum ops (\<lambda>r. Some (day_of_week r)) (rows df)) = Inr k" .
  from idxmax_groupby_sum_total [OF assms, of ops hour]
  have 5: "\<exists>k. idxmax (groupby_sum ops (\<lambda>r. Some (hour r)) (rows df)) = Inr k" .
  from 1 2 3 4 5 show ?thesis by blast
qed

lemma build_context_summary_returns:
  assumes "rows df \<noteq> []" and "hour_dtype df = int64"
  shows "\<exists>b. build_context_summary ops df = Inr b"
proof -
  from build_context_summary_steps [OF assms(1), of ops] obtain dmin dmax pct pday phour where
    "strftime (series_min (map datetime (rows df))) = Inr dmin"
    "strftime (series_max (map datetime (rows df))) = Inr dmax"
    "py_true_div ops (100 * sum_list (map is_fraud (rows df))) (int (length (rows df)))
       = Inr pct"
    "idxmax (groupby_sum ops (\<lambda>r. Some (day_of_week r)) (rows df)) = Inr pday"
    "idxmax (groupby_sum ops (\<lambda>r. Some (hour r)) (rows df)) = Inr phour"
    by blast
  then show ?thesis
    using assms(2) by (simp add: build_context_summary_def format_02d_def)
qed

lemma build_context_summary_float_hour:
  assumes "rows df \<noteq> []" and "hour_dtype df = float64"
  shows "build_context_summary ops df = Inl ValueError"
proof -
  from build_context_summary_steps [OF assms(1), of ops] obtain dmin dmax pct pday phour where
    "strftime (series_min (map datetime (rows df))) = Inr dmin"
    "strftime (series_max (map datetime (rows df))) = Inr dmax"
    "py_true_div ops (100 * sum_list (map is_fraud (rows df))) (int (length (rows df)))
       = Inr pct"
    "idxmax (groupby_sum ops (\<lambda>r. Some (day_of_week r)) (rows df)) = Inr pday"
    "idxmax (groupby_sum ops (\<lambda>r. Some (hour r)) (rows df)) = Inr phour"
    by blast
  then show ?thesis
    using assms(2) by (simp add: build_context_summary_def format_02d_def)
qed

lemma build_context_summary_fields:
  assumes "build_context_summary ops df = Inr b"
  shows "idxmax (groupby_sum ops (\<lambda>r. Some (day_of_week r)) (rows df)) = Inr (peak_day b)"
    and "idxmax (groupby_sum ops (\<lambda>r. Some (hour r)) (rows df)) = Inr (peak_hour b)"
    and "total_spend b = series_sum ops (map amount (rows df))"
    and "total_txns b = int (length (rows df))"
    and "cat_lines b =
           map (\<lambda>row. (fst row, fst (snd row),
                        percent ops (fst (snd row)) (series_sum ops (map amount (rows df))),
                        snd (snd row)))
             (cat_summary ops (rows df))"
    and "merch_lines b =
           map (\<lambda>p. (fst p + 1, fst (snd p), snd (snd p)))
             (enumerate 0 (top_merchants ops (rows df)))"
    and "monthly_lines b =
           map (\<lambda>row. (snd (snd (fst row)), snd row)) (monthly ops (rows df))"
  using assms
  by (auto simp: build_context_summary_def format_02d_def split: sum.splits dtype.splits)

lemma cat_summary_no_category:
  assumes "\<forall>r \<in> set df. spending_category r = None" and "argsort_desc ops [] = []"
  shows "cat_summary ops df = []"
proof -
  from assms(1) have "List.map_filter spending_category df = []"
    by (induction df) (simp_all add: map_filter_simps)
  then have "groupby_agg ops spending_category df = []"
    by (simp add: groupby_agg_def groupby_def)
  then show ?thesis
    using assms(2) by (simp add: cat_summary_def sort_values_desc_def)
qed

subsection \<open>The empty DataFrame\<close>

text \<open>
  C4, on the code: for the empty DataFrame \<open>build_context_summary\<close> fails and returns no
  summary, whatever the floating-point operations; the failure is the \<open>ValueError\<close> of
  \<open>strftime\<close> on the \<open>NaT\<close> that the minimum of the empty \<open>datetime\<close> column is.
\<close>

theorem build_context_summary_empty_frame:
  "build_context_summary ops \<lparr>hour_dtype = t, rows = []\<rparr> = Inl ValueError"
  by (simp add: build_context_summary_def strftime_def series_min_def)

text \<open>C4 as stated fails: the error on the empty DataFrame is not \<open>EmptyDatasetError\<close>.\<close>

theorem empty_frame_error_counterexample:
  "build_context_summary exact_ops \<lparr>hour_dtype = int64, rows = []\<rparr> = Inl ValueError \<and>
   build_context_summary exact_ops \<lparr>hour_dtype = int64, rows = []\<rparr> \<noteq> Inl EmptyDatasetError"
  by (simp add: build_context_summary_def strftime_def series_min_def)

subsection \<open>No validation of the aggregates\<close>

text \<open>
  C8, on the code: a DataFrame with at least one row and an integer hour column in
  which no row has a spending category gives an empty category list, and
  \<open>build_context_summary\<close> does not fail on it: it returns the summary with no category
  line, beside the totals, the merchant lines and the monthly lines that it computes
  from the rows as on any other DataFrame. (Sorting the empty table gives the empty
  table: \<open>argsort_desc ops [] = []\<close>.)
\<close>

theorem build_context_summary_no_validation:
  assumes "rows df \<noteq> []"
    and "hour_dtype df = int64"
    and "\<forall>r \<in> set (rows df). spending_category r = None"
    and "argsort_desc ops [] = []"
  shows "\<exists>b. build_context_summary ops df = Inr b \<and>
             cat_lines b = [] \<and>
             total_spend b = series_sum ops (map amount (rows df)) \<and>
             total_txns b = int (length (rows df)) \<and>
             merch_lines b =
               map (\<lambda>p. (fst p + 1, fst (snd p), snd (snd p)))
                 (enumerate 0 (top_merchants ops (rows df))) \<and>
             monthly_lines b =
               map (\<lambda>row. (snd (snd (fst row)), snd row)) (monthly ops (rows df))"
proof -
  from build_context_summary_returns [OF assms(1,2), of ops]
  obtain b where b: "build_context_summary ops df = Inr b" by blast
  have "cat_lines b = []"
    using build_context_summary_fields(5) [OF b] cat_summary_no_category [OF assms(3,4)]
    by simp
  with b build_context_summary_fields(3,4,6,7) [OF b] show ?thesis
    by blast
qed

theorem build_context_summary_no_validation_witness:
  "build_context_summary exact_ops
     \<lparr>hour_dtype = int64, rows =
       [\<lparr>amount = 10, datetime = 1546869600, is_fraud = 0,
          spending_category = None, merchant = py_str ''Shop'',
          year = 2019, month = 1, month_name = py_str ''Jan 2019'',
          day_of_week = py_str ''Monday'', hour = 14\<rparr>,
        \<lparr>amount = 30, datetime = 1546592400, is_fraud = 0,
          spending_category = None, merchant = py_str ''Shop'',
          year = 2019, month = 1, month_name = py_str ''Jan 2019'',
          day_of_week = py_str ''Friday'', hour = 9\<rparr>]\<rparr> =
   Inr \<lparr>total_spend = 40, total_txns = 2,
          date_min = 1546592400, date_max = 1546869600,
          avg_txn = 20, max_txn = Some 30, fraud_count = 0, fraud_pct = 0,
          cat_lines = [],
          merch_lines = [(1, py_str ''Shop'', 40)],
          monthly_lines = [(py_str ''Jan 2019'', 40)],
          peak_day = py_str ''Friday'', peak_hour = 9\<rparr>"
proof -
  have 1: "rows \<lparr>hour_dtype = int64, rows =
       [\<lparr>amount = 10, datetime = 1546869600, is_fraud = 0,
          spending_category = None, merchant = py_str ''Shop'',
          year = 2019, month = 1, month_name = py_str ''Jan 2019'',
          day_of_week = py_str ''Monday'', hour = 14\<rparr>,
        \<lparr>amount = 30, datetime = 1546592400, is_fraud = 0,
          spending_category = None, merchant = py_str ''Shop'',
          year = 2019, month = 1, month_name = py_str ''Jan 2019'',
          day_of_week = py_str ''Friday'', hour = 9\<rparr>]\<rparr> \<noteq> []"
    by simp
  have 2: "hour_dtype \<lparr>hour_dtype = int64, rows =
       [\<lparr>amount = 10, datetime = 1546869600, is_fraud = 0,
          spending_category = None, merchant = py_str ''Shop'',
          year = 2019, month = 1, month_name = py_str ''Jan 2019'',
          day_of_week = py_str ''Monday'', hour = 14\<rparr>,
        \<lparr>amount = 30, datetime = 1546592400, is_fraud = 0,
          spending_category = None, merchant = py_str ''Shop'',
          year = 2019, month = 1, month_name = py_str ''Jan 2019'',
          day_of_week = py_str ''Friday'', hour = 9\<rparr>]\<rparr> = int64"
    by simp
  have 3: "\<forall>r \<in> set (rows \<lparr>hour_dtype = int64, rows =
       [\<lparr>amount = 10, datetime = 1546869600, is_fraud = 0,
          spending_category = None, merchant = py_str ''Shop'',
          year = 2019, month = 1, month_name = py_str ''Jan 2019'',
          day_of_week = py_str ''Monday'', hour = 14\<rparr>,
        \<lparr>amount = 30, datetime = 1546592400, is_fraud = 0,
          spending_category = None, merchant = py_str ''Shop'',
          year = 2019, month = 1, month_name = py_str ''Jan 2019'',
          day_of_week = py_str ''Friday'', hour = 9\<rparr>]\<rparr>). spending_category r = None"
    by simp
  have 4: "argsort_desc exact_ops [] = []"
    by (simp add: exact_ops_def argsort_stable_desc_def)
  show ?thesis
    using build_context_summary_no_validation [OF 1 2 3 4]
    by (simp add: build_context_summary_def strftime_def series_min_def series_max_def
        exact_ops_def py_true_div_def groupby_sum_def groupby_agg_def groupby_def
        sort_values_desc_def tail_def idxmax_def argsort_stable_desc_def format_02d_def
        cat_summary_def top_merchants_def monthly_def enumerate_eq_zip
        List.map_filter_def py_str_def)
qed

text \<open>
  C8 as stated fails: a DataFrame whose only row has no spending category gives an empty
  category list, and the summary is returned with that section blank.
\<close>

theorem blank_category_section_counterexample:
  "build_context_summary exact_ops
     \<lparr>hour_dtype = int64, rows =
       [\<lparr>amount = 10, datetime = 1546869600, is_fraud = 0,
          spending_category = None, merchant = py_str ''Shop'',
          year = 2019, month = 1, month_name = py_str ''Jan 2019'',
          day_of_week = py_str ''Monday'', hour = 14\<rparr>]\<rparr> =
   Inr \<lparr>total_spend = 10, total_txns = 1,
          date_min = 1546869600, date_max = 1546869600,
          avg_txn = 10, max_txn = Some 10, fraud_count = 0, fraud_pct = 0,
          cat_lines = [],
          merch_lines = [(1, py_str ''Shop'', 10)],
          monthly_lines = [(py_str ''Jan 2019'', 10)],
          peak_day = py_str ''Monday'', peak_hour = 14\<rparr>"
  by (simp add: build_context_summary_def strftime_def series_min_def series_max_def
        exact_ops_def py_true_div_def groupby_sum_def groupby_agg_def groupby_def
        sort_values_desc_def tail_def idxmax_def argsort_stable_desc_def format_02d_def
        cat_summary_def top_merchants_def monthly_def enumerate_eq_zip
        List.map_filter_def py_str_def)

subsection \<open>Behavioral peaks\<close>

text \<open>
  C9, on the code: in a summary that is returned, the peak hour is an hour of the
  DataFrame whose total is the greatest, and among the hours with that total it is the
  lowest; the peak day is a day name of the DataFrame whose total is the greatest, and
  among the day names with that total it is the first one in the order of strings (the
  alphabetical one for the seven English names).
\<close>

theorem peak_tie_break:
  assumes "build_context_summary ops df = Inr b"
  shows "(\<exists>r \<in> set (rows df). hour r = peak_hour b) \<and>
         (\<forall>r \<in> set (rows df).
            group_total ops (\<lambda>r. Some (hour r)) (rows df) (hour r)
              \<le> group_total ops (\<lambda>r. Some (hour r)) (rows df) (peak_hour b) \<and>
            (group_total ops (\<lambda>r. Some (hour r)) (rows df) (hour r)
               = group_total ops (\<lambda>r. Some (hour r)) (rows df) (peak_hour b)
             \<longrightarrow> peak_hour b \<le> hour r)) \<and>
         (\<exists>r \<in> set (rows df). day_of_week r = peak_day b) \<and>
         (\<forall>r \<in> set (rows df).
            group_total ops (\<lambda>r. Some (day_of_week r)) (rows df) (day_of_week r)
              \<le> group_total ops (\<lambda>r. Some (day_of_week r)) (rows df) (peak_day b) \<and>
            (group_total ops (\<lambda>r. Some (day_of_week r)) (rows df) (day_of_week r)
               = group_total ops (\<lambda>r. Some (day_of_week r)) (rows df) (peak_day b)
             \<longrightarrow> peak_day b \<le> day_of_week r))"
proof -
  from build_context_summary_fields(1,2) [OF assms]
  have d: "idxmax (groupby_sum ops (\<lambda>r. Some (day_of_week r)) (rows df)) = Inr (peak_day b)"
    and h: "idxmax (groupby_sum ops (\<lambda>r. Some (hour r)) (rows df)) = Inr (peak_hour b)"
    by simp_all
  from idxmax_groupby_sum [OF h] have hh:
    "(\<exists>r \<in> set (rows df). hour r = peak_hour b) \<and>
     (\<forall>r \<in> set (rows df).
        group_total ops (\<lambda>r. Some (hour r)) (rows df) (hour r)
          \<le> group_total ops (\<lambda>r. Some (hour r)) (rows df) (peak_hour b) \<and>
        (group_total ops (\<lambda>r. Some (hour r)) (rows df) (hour r)
           = group_total ops (\<lambda>r. Some (hour r)) (rows df) (peak_hour b)
         \<longrightarrow> peak_hour b \<le> hour r))"
    by auto
  from idxmax_groupby_sum [OF d] have dd:
    "(\<exists>r \<in> set (rows df). day_of_week r = peak_day b) \<and>
     (\<forall>r \<in> set (rows df).
        group_total ops (\<lambda>r. Some (day_of_week r)) (rows df) (day_of_week r)
          \<le> group_total ops (\<lambda>r. Some (day_of_week r)) (rows df) (peak_day b) \<and>
        (group_total ops (\<lambda>r. Some (day_of_week r)) (rows df) (day_of_week r)
           = group_total ops (\<lambda>r. Some (day_of_week r)) (rows df) (peak_day b)
         \<longrightarrow> peak_day b \<le> day_of_week r))"
    by auto
  from hh dd show ?thesis by blast
qed

theorem peak_tie_break_witness:
  "build_context_summary exact_ops
     \<lparr>hour_dtype = int64, rows =
       [\<lparr>amount = 7, datetime = 1546977600, is_fraud = 0,
          spending_category = Some (py_str ''Shopping''), merchant = py_str ''Shop'',
          year = 2019, month = 1, month_name = py_str ''Jan 2019'',
          day_of_week = py_str ''Tuesday'', hour = 20\<rparr>,
        \<lparr>amount = 7, datetime = 1546675200, is_fraud = 0,
          spending_category = Some (py_str ''Shopping''), merchant = py_str ''Shop'',
          year = 2019, month = 1, month_name = py_str ''Jan 2019'',
          day_of_week = py_str ''Saturday'', hour = 8\<rparr>]\<rparr> =
   Inr \<lparr>total_spend = 14, total_txns = 2,
          date_min = 1546675200, date_max = 1546977600,
          avg_txn = 7, max_txn = Some 7, fraud_count = 0, fraud_pct = 0,
          cat_lines = [(py_str ''Shopping'', 14, 100, 2)],
          merch_lines = [(1, py_str ''Shop'', 14)],
          monthly_lines = [(py_str ''Jan 2019'', 14)],
          peak_day = py_str ''Saturday'', peak_hour = 8\<rparr> \<and>
   py_str ''Saturday'' \<le> py_str ''Tuesday''"
proof -
  have b: "build_context_summary exact_ops
     \<lparr>hour_dtype = int64, rows =
       [\<lparr>amount = 7, datetime = 1546977600, is_fraud = 0,
          spending_category = Some (py_str ''Shopping''), merchant = py_str ''Shop'',
          year = 2019, month = 1, month_name = py_str ''Jan 2019'',
          day_of_week = py_str ''Tuesday'', hour = 20\<rparr>,
        \<lparr>amount = 7, datetime = 1546675200, is_fraud = 0,
          spending_category = Some (py_str ''Shopping''), merchant = py_str ''Shop'',
          year = 2019, month = 1, month_name = py_str ''Jan 2019'',
          day_of_week = py_str ''Saturday'', hour = 8\<rparr>]\<rparr> =
   Inr \<lparr>total_spend = 14, total_txns = 2,
          date_min = 1546675200, date_max = 1546977600,
          avg_txn = 7, max_txn = Some 7, fraud_count = 0, fraud_pct = 0,
          cat_lines = [(py_str ''Shopping'', 14, 100, 2)],
          merch_lines = [(1, py_str ''Shop'', 14)],
          monthly_lines = [(py_str ''Jan 2019'', 14)],
          peak_day = py_str ''Saturday'', peak_hour = 8\<rparr>"
    by (simp add: build_context_summary_def strftime_def series_min_def series_max_def
        exact_ops_def py_true_div_def groupby_sum_def groupby_agg_def groupby_def
        sort_values_desc_def tail_def idxmax_def argsort_stable_desc_def format_02d_def
        cat_summary_def top_merchants_def monthly_def enumerate_eq_zip
        List.map_filter_def py_str_def)
  have o: "py_str ''Saturday'' \<le> py_str ''Tuesday''"
    using peak_tie_break [OF b]
    by (simp add: group_total_def exact_ops_def py_str_def)
  from b o show ?thesis by simp
qed

text \<open>
  C9 as stated fails for the day: Monday and Friday both total 10, and the peak day is
  Friday, not Monday. (The hours 9 and 14 tie as well, and the peak hour is 9.)
\<close>

theorem peak_day_counterexample:
  "build_context_summary exact_ops
     \<lparr>hour_dtype = int64, rows =
       [\<lparr>amount = 10, datetime = 1546869600, is_fraud = 0,
          spending_category = Some (py_str ''Shopping''), merchant = py_str ''Shop'',
          year = 2019, month = 1, month_name = py_str ''Jan 2019'',
          day_of_week = py_str ''Monday'', hour = 14\<rparr>,
        \<lparr>amount = 10, datetime = 1546592400, is_fraud = 0,
          spending_category = Some (py_str ''Shopping''), merchant = py_str ''Shop'',
          year = 2019, month = 1, month_name = py_str ''Jan 2019'',
          day_of_week = py_str ''Friday'', hour = 9\<rparr>]\<rparr> =
   Inr \<lparr>total_spend = 20, total_txns = 2,
          date_min = 1546592400, date_max = 1546869600,
          avg_txn = 10, max_txn = Some 10, fraud_count = 0, fraud_pct = 0,
          cat_lines = [(py_str ''Shopping'', 20, 100, 2)],
          merch_lines = [(1, py_str ''Shop'', 20)],
          monthly_lines = [(py_str ''Jan 2019'', 20)],
          peak_day = py_str ''Friday'', peak_hour = 9\<rparr>"
  by (simp add: build_context_summary_def strftime_def series_min_def series_max_def
        exact_ops_def py_true_div_def groupby_sum_def groupby_agg_def groupby_def
        sort_values_desc_def tail_def idxmax_def argsort_stable_desc_def format_02d_def
        cat_summary_def top_merchants_def monthly_def enumerate_eq_zip
        List.map_filter_def py_str_def)

end
